theory Spec2Isabelle
  imports Main
begin

section \<open>JavaScript strings used by the media browser\<close>

text \<open>
  File names and paths are modelled as \<^typ>\<open>string\<close>. The model covers ASCII text: the
  built-ins \<open>toLowerCase\<close>, \<open>trim\<close> and \<open>localeCompare\<close> are written out for ASCII
  characters and leave every other character as it is.
\<close>

definition bslash :: char where
  "bslash = CHR 0x5C"

definition slash :: char where
  "slash = CHR ''/''"

text \<open>\<open>String.prototype.toLowerCase\<close> on one character.\<close>

definition toLowerChar :: "char \<Rightarrow> char" where
  "toLowerChar c =
     (case map_of (zip ''ABCDEFGHIJKLMNOPQRSTUVWXYZ'' ''abcdefghijklmnopqrstuvwxyz'') c of
        Some d \<Rightarrow> d
      | None \<Rightarrow> c)"

definition toLowerCase :: "string \<Rightarrow> string" where
  "toLowerCase s = map toLowerChar s"

text \<open>
  \<open>s.split(sep)\<close> for a one-character separator: the segments between the separators,
  so that a string without separator is its only segment and \<open>''''\<close> splits into \<open>['''']\<close>.
\<close>

fun split_js :: "char \<Rightarrow> string \<Rightarrow> string list" where
  "split_js sep [] = [[]]"
| "split_js sep (c # cs) =
     (if c = sep then [] # split_js sep cs
      else (c # hd (split_js sep cs)) # tl (split_js sep cs))"

text \<open>\<open>(segs.pop() || '''')\<close>: the last segment, and \<open>''''\<close> when there is none.\<close>

definition pop_or_empty :: "string list \<Rightarrow> string" where
  "pop_or_empty segs = (if segs = [] then [] else last segs)"

text \<open>\<open>getExt\<close> of ThumbnailGrid.js and viewer.js (the same text in both).\<close>

definition getExt :: "string \<Rightarrow> string" where
  "getExt name = toLowerCase (pop_or_empty (split_js (CHR ''.'') name))"

text \<open>\<open>String.prototype.trim\<close> on ASCII white space (TAB, LF, VT, FF, CR, SPACE).\<close>

definition is_space :: "char \<Rightarrow> bool" where
  "is_space c = (c \<in> set [CHR 0x09, CHR 0x0A, CHR 0x0B, CHR 0x0C, CHR 0x0D, CHR 0x20])"

definition trim :: "string \<Rightarrow> string" where
  "trim s = rev (dropWhile is_space (rev (dropWhile is_space s)))"

text \<open>
  \<open>a.localeCompare(b, undefined, {sensitivity: 'base'})\<close>: the host's collation at base
  sensitivity, which ignores letter case. On ASCII letters and digits it is the
  comparison of the case-folded strings, character by character; the result is
  negative, zero or positive.
\<close>

fun compare_codes :: "string \<Rightarrow> string \<Rightarrow> int" where
  "compare_codes [] [] = 0"
| "compare_codes [] (y # ys) = - 1"
| "compare_codes (x # xs) [] = 1"
| "compare_codes (x # xs) (y # ys) =
     (if (of_char x :: nat) < of_char y then - 1
      else if (of_char y :: nat) < of_char x then 1
      else compare_codes xs ys)"

definition localeCompare_base :: "string \<Rightarrow> string \<Rightarrow> int" where
  "localeCompare_base a b = compare_codes (toLowerCase a) (toLowerCase b)"


section \<open>Supported formats (ThumbnailGrid.js, viewer.js, main entry script)\<close>

definition IMAGE_EXT :: "string list" where
  "IMAGE_EXT = [''jpg'', ''jpeg'', ''png'', ''gif'', ''bmp'', ''webp'', ''tiff'', ''tif'', ''ico'', ''svg'']"

definition VIDEO_EXT :: "string list" where
  "VIDEO_EXT = [''mp4'', ''mov'', ''avi'', ''webm'', ''mkv'', ''m4v'', ''wmv'']"

definition HEIC_EXT :: "string list" where
  "HEIC_EXT = [''heic'', ''heif'']"

definition PDF_EXT :: "string list" where
  "PDF_EXT = [''pdf'']"

text \<open>
  Modelled from the spec: the audio extensions of the playable list. The component
  that filters audio files (PlayableList.js) is not among the sources; the table is
  the one of the specification's supported-format classification.
\<close>

definition AUDIO_EXT :: "string list" where
  "AUDIO_EXT = [''mp3'', ''wav'', ''ogg'', ''m4a'', ''aac'', ''flac'', ''wma'', ''opus'', ''webm'']"

definition isMediaFile :: "string \<Rightarrow> bool" where
  "isMediaFile name =
     (let ext = getExt name
      in ext \<in> set IMAGE_EXT \<or> ext \<in> set VIDEO_EXT
         \<or> ext \<in> set HEIC_EXT \<or> ext \<in> set PDF_EXT)"

definition isHeic :: "string \<Rightarrow> bool" where
  "isHeic name = (getExt name \<in> set HEIC_EXT)"

definition isPdf :: "string \<Rightarrow> bool" where
  "isPdf name = (getExt name = ''pdf'')"

definition isVideo :: "string \<Rightarrow> bool" where
  "isVideo name = (getExt name \<in> set VIDEO_EXT)"

text \<open>
  The kind of a grid entry. The grid, the preview pane and the viewer all branch in
  this order: HEIC first, then PDF, then video, and everything else is an image.
\<close>

datatype kind = Image | Video | Heic | Pdf

definition kindOf :: "string \<Rightarrow> kind" where
  "kindOf name =
     (if isHeic name then Heic
      else if isPdf name then Pdf
      else if isVideo name then Video
      else Image)"


section \<open>The media sequence of a folder (loadThumbnails)\<close>

record entry =
  name :: string
  path :: string
  is_dir :: bool

text \<open>
  \<open>Array.prototype.sort\<close> with a comparator: a stable sort, here by insertion. An
  element goes in front of the first element it does not compare greater than, the
  elements being inserted from the right, so equal elements keep their order.
\<close>

fun insort_by :: "('a \<Rightarrow> 'a \<Rightarrow> int) \<Rightarrow> 'a \<Rightarrow> 'a list \<Rightarrow> 'a list" where
  "insort_by cmp x [] = [x]"
| "insort_by cmp x (y # ys) =
     (if cmp x y \<le> 0 then x # y # ys else y # insort_by cmp x ys)"

definition sort_by :: "('a \<Rightarrow> 'a \<Rightarrow> int) \<Rightarrow> 'a list \<Rightarrow> 'a list" where
  "sort_by cmp xs = foldr (insort_by cmp) xs []"

text \<open>
  Lines 76-77 of ThumbnailGrid.js: the entries that are files with a supported
  extension, sorted by name without regard to case.
\<close>

definition media_files :: "entry list \<Rightarrow> entry list" where
  "media_files entries =
     sort_by (\<lambda>a b. localeCompare_base (name a) (name b))
       (filter (\<lambda>e. \<not> is_dir e \<and> isMediaFile (name e)) entries)"

definition grid_paths :: "entry list \<Rightarrow> string list" where
  "grid_paths entries = map path (media_files entries)"

text \<open>The listing of the scenario: a folder \<open>C:\Photos\<close> with four files.\<close>

definition photos_dir :: string where
  "photos_dir = ''C:'' @ [bslash] @ ''Photos''"

definition file_in :: "string \<Rightarrow> string \<Rightarrow> entry" where
  "file_in dir n = \<lparr>name = n, path = dir @ [bslash] @ n, is_dir = False\<rparr>"

definition scenario_listing :: "entry list" where
  "scenario_listing =
     [file_in photos_dir ''b.jpg'', file_in photos_dir ''A.PNG'',
      file_in photos_dir ''c.mp4'', file_in photos_dir ''d.txt'']"


section \<open>Loading a file for display\<close>

text \<open>
  What a component does with one file is recorded as the list of its actions on the
  page and on the backend, in the order they happen.
\<close>

datatype action =
    AssetRef
  | EmptySrc
  | DecodeRequest string
  | DataSrc
  | Placeholder string
  | HideImage
  | HelpMessage string bool
  | SetVolume
  | Play
  | UpdatePlayButton

text \<open>
  \<open>AssetRef\<close>: the element's \<open>src\<close> is set to \<open>convertFileSrc(path)\<close>, the direct
  reference to the file. \<open>EmptySrc\<close>: \<open>src\<close> is set to the empty string.
  \<open>DecodeRequest c\<close>: the backend command \<open>c\<close> is invoked for the file. \<open>DataSrc\<close>: \<open>src\<close> is
  set to the data URL the command returned. \<open>Placeholder t\<close>: the text \<open>t\<close> is shown in
  place of the content. \<open>HideImage\<close>: the image's visibility is set to hidden.

  The surroundings decide what the code cannot: which of the host's functions exist,
  whether \<open>convertFileSrc\<close> raises, whether a load succeeds, and whether the k-th
  request to the backend resolves and the data URL it returned loads.
\<close>

record env =
  pane_present :: bool
  convert_avail :: bool
  convert_throws :: bool
  invoke_avail :: bool
  asset_loads :: bool
  empty_src_errors :: bool
  decode_resolves :: "nat \<Rightarrow> bool"
  data_loads :: "nat \<Rightarrow> bool"

text \<open>\<open>a || b\<close> on strings: \<open>b\<close> when \<open>a\<close> is empty.\<close>

definition or_else :: "string \<Rightarrow> string \<Rightarrow> string" where
  "or_else a b = (if a = [] then b else a)"

subsection \<open>The preview pane (showPreview)\<close>

text \<open>
  The \<open>onerror\<close> handler of the preview image. After a data URL has been set the
  handler is replaced by \<open>setPlaceholder\<close>, so it runs at most once.
\<close>

definition preview_onerror :: "env \<Rightarrow> string \<Rightarrow> action list" where
  "preview_onerror e nm =
     (if \<not> invoke_avail e then [Placeholder nm]
      else DecodeRequest ''read_file_as_data_url'' #
        (if decode_resolves e 0
         then DataSrc # (if data_loads e 0 then [] else [Placeholder nm])
         else [Placeholder nm]))"

definition preview_image :: "env \<Rightarrow> string \<Rightarrow> action list" where
  "preview_image e nm =
     (if convert_avail e
      then (if convert_throws e then [Placeholder nm]
            else AssetRef # (if asset_loads e then [] else preview_onerror e nm))
      else [])"

definition preview_video :: "env \<Rightarrow> string \<Rightarrow> action list" where
  "preview_video e nm =
     (if convert_avail e
      then (if convert_throws e then [Placeholder (or_else nm ''Video could not be loaded'')]
            else AssetRef #
              (if asset_loads e then []
               else [Placeholder ''Video failed to load. Check path or format.'']))
      else [Placeholder ''Tauri not available''])"

definition showPreview :: "env \<Rightarrow> string \<Rightarrow> action list" where
  "showPreview e nm =
     (if \<not> pane_present e then []
      else if isHeic nm then [Placeholder ''HEIC'']
      else if isPdf nm then [Placeholder ''PDF cannot be displayed.'']
      else if isVideo nm then preview_video e nm
      else preview_image e nm)"

subsection \<open>The viewer window (showImage)\<close>

text \<open>
  The \<open>onerror\<close> handler of the viewer's image stays installed after a data URL has
  been set, so it runs again when that data URL fails to load. The first argument
  bounds the number of error events handled; \<open>None\<close> means the bound was reached.
\<close>

fun viewer_onerror :: "nat \<Rightarrow> env \<Rightarrow> string \<Rightarrow> nat \<Rightarrow> action list option" where
  "viewer_onerror 0 e nm k = None"
| "viewer_onerror (Suc n) e nm k =
     (if \<not> invoke_avail e then Some [Placeholder (or_else nm ''No image'')]
      else if \<not> decode_resolves e k
      then Some [DecodeRequest ''read_file_as_data_url'', Placeholder (or_else nm ''No image'')]
      else if data_loads e k then Some [DecodeRequest ''read_file_as_data_url'', DataSrc]
      else map_option (\<lambda>t. DecodeRequest ''read_file_as_data_url'' # DataSrc # t)
             (viewer_onerror n e nm (Suc k)))"

definition viewer_image :: "nat \<Rightarrow> env \<Rightarrow> string \<Rightarrow> action list option" where
  "viewer_image fuel e nm =
     (if convert_avail e
      then (if convert_throws e then Some [Placeholder (or_else nm ''No image'')]
            else if asset_loads e then Some [AssetRef]
            else map_option (\<lambda>t. AssetRef # t) (viewer_onerror fuel e nm 0))
      else Some [])"

datatype js_error = Thrown

text \<open>
  The video branch calls \<open>convertFileSrc\<close> outside any \<open>try\<close>: an exception leaves
  \<open>showImage\<close>. The video element gets no error handler.
\<close>

definition viewer_video :: "env \<Rightarrow> string \<Rightarrow> js_error + action list" where
  "viewer_video e nm =
     (if convert_avail e
      then (if convert_throws e then Inl Thrown else Inr [AssetRef])
      else Inr [Placeholder nm])"

definition showImage :: "nat \<Rightarrow> env \<Rightarrow> string \<Rightarrow> (js_error + action list) option" where
  "showImage fuel e nm =
     (if isHeic nm then Some (Inr [Placeholder ''HEIC''])
      else if isPdf nm then Some (Inr [Placeholder ''PDF cannot be displayed.''])
      else if isVideo nm then Some (viewer_video e nm)
      else map_option Inr (viewer_image fuel e nm))"

subsection \<open>A cell of the thumbnail grid (the loop body of loadThumbnails)\<close>

fun grid_onerror :: "nat \<Rightarrow> env \<Rightarrow> nat \<Rightarrow> action list option" where
  "grid_onerror 0 e k = None"
| "grid_onerror (Suc n) e k =
     (if invoke_avail e
      then (if \<not> decode_resolves e k
            then Some [DecodeRequest ''read_file_as_data_url'', HideImage]
            else if data_loads e k then Some [DecodeRequest ''read_file_as_data_url'', DataSrc]
            else map_option (\<lambda>t. DecodeRequest ''read_file_as_data_url'' # DataSrc # t)
                   (grid_onerror n e (Suc k)))
      else Some [HideImage])"

definition grid_image :: "nat \<Rightarrow> env \<Rightarrow> action list option" where
  "grid_image fuel e =
     (if convert_avail e
      then (if convert_throws e
            then (if empty_src_errors e
                  then map_option (\<lambda>t. EmptySrc # t) (grid_onerror fuel e 0)
                  else Some [EmptySrc])
            else if asset_loads e then Some [AssetRef]
            else map_option (\<lambda>t. AssetRef # t) (grid_onerror fuel e 0))
      else Some [])"

text \<open>
  A video cell asks the backend for a thumbnail at once; the image that shows it has
  no error handler.
\<close>

definition grid_video :: "env \<Rightarrow> action list" where
  "grid_video e =
     EmptySrc #
       (if \<not> invoke_avail e then []
        else DecodeRequest ''get_video_thumbnail_data_url'' #
          (if decode_resolves e 0 then [DataSrc] else [Placeholder ''Video'']))"

definition grid_cell :: "nat \<Rightarrow> env \<Rightarrow> string \<Rightarrow> action list option" where
  "grid_cell fuel e nm =
     (if isHeic nm then Some [Placeholder ''HEIC'']
      else if isPdf nm then Some [Placeholder ''PDF'']
      else if isVideo nm then Some (grid_video e)
      else grid_image fuel e)"


definition requests_decode :: "action list \<Rightarrow> bool" where
  "requests_decode t = list_ex (\<lambda>a. case a of DecodeRequest _ \<Rightarrow> True | _ \<Rightarrow> False) t"

text \<open>The application running in its host: both functions of the host exist.\<close>

definition in_app :: "env \<Rightarrow> bool" where
  "in_app e = (pane_present e \<and> convert_avail e \<and> \<not> convert_throws e \<and> invoke_avail e)"

text \<open>Surroundings in which no load succeeds and every request is rejected.\<close>

definition env_all_fail :: env where
  "env_all_fail =
     \<lparr>pane_present = True, convert_avail = True, convert_throws = False, invoke_avail = True,
      asset_loads = False, empty_src_errors = True,
      decode_resolves = (\<lambda>k. False), data_loads = (\<lambda>k. False)\<rparr>"


section \<open>Audio playback (startAudioPlayback)\<close>

datatype audio_reply = AudioRejected string | AudioResolved "string option"

text \<open>
  \<open>AudioResolved None\<close> is a reply that is not a string. \<open>play_rejects\<close> holds the
  message of the rejection of \<open>audioEl.play()\<close>, if it is rejected.
\<close>

record audio_env =
  audioEl_present :: bool
  invoke_is_function :: bool
  reply :: audio_reply
  volumeEl_present :: bool
  play_rejects :: "string option"

definition loading_text :: string where
  "loading_text = ''Loading'' @ [CHR 0xE2, CHR 0x80, CHR 0xA6]"

definition startAudioPlayback :: "audio_env \<Rightarrow> string \<Rightarrow> action list" where
  "startAudioPlayback ae filePath =
     (if \<not> audioEl_present ae \<or> filePath = [] then [HelpMessage ''Audio not available.'' True]
      else if \<not> invoke_is_function ae then [HelpMessage ''Tauri not available.'' True]
      else HelpMessage loading_text False # DecodeRequest ''read_file_as_audio_url'' #
        (case reply ae of
           AudioRejected m \<Rightarrow> [HelpMessage (''Playback failed: '' @ m) True]
         | AudioResolved d \<Rightarrow>
             HelpMessage [] False #
               (case d of
                  None \<Rightarrow> [HelpMessage ''Playback failed: no data.'' True]
                | Some url \<Rightarrow>
                    (if url = [] then [HelpMessage ''Playback failed: no data.'' True]
                     else DataSrc # (if volumeEl_present ae then [SetVolume] else []) @
                       Play #
                         (case play_rejects ae of
                            None \<Rightarrow> [UpdatePlayButton]
                          | Some m \<Rightarrow> [HelpMessage (''Playback failed: '' @ m) True])))))"

definition audio_env_ok :: audio_env where
  "audio_env_ok =
     \<lparr>audioEl_present = True, invoke_is_function = True,
      reply = AudioResolved (Some ''data:audio/mpeg;base64,AAAA''),
      volumeEl_present = True, play_rejects = None\<rparr>"


section \<open>Rendering a folder and choosing the selected cell (loadThumbnails)\<close>

text \<open>
  The reply of the \<open>list_directory\<close> command: the call is rejected, or it returns an
  object with the fields \<open>ok\<close>, \<open>entries\<close> and \<open>error\<close>, the last two possibly missing.
\<close>

datatype listing = ListRejected | ListResult bool "entry list option" "string option"

text \<open>
  What \<open>loadThumbnails\<close> leaves behind: nothing when there is no grid element, a message
  in the grid, or the cells in order with the index of the selected cell and the calls
  of \<open>onSelect\<close> (path and name).
\<close>

datatype grid_outcome =
    NoGrid
  | GridMessage string
  | GridLoaded "entry list" nat "(string \<times> string) list"

text \<open>The first cell whose \<open>data-path\<close> is the given path.\<close>

definition find_cell :: "string \<Rightarrow> entry list \<Rightarrow> nat option" where
  "find_cell p files =
     (if p \<in> set (map path files)
      then Some (length (takeWhile (\<lambda>f. path f \<noteq> p) files))
      else None)"

text \<open>
  The arguments: whether the grid element exists, the reply of the listing command
  (\<open>None\<close> when the host's \<open>invoke\<close> is missing), whether \<open>onSelect\<close> is given, and the
  path to select (\<open>None\<close> when it is not a string).
\<close>

definition loadThumbnails ::
  "bool \<Rightarrow> listing option \<Rightarrow> bool \<Rightarrow> string option \<Rightarrow> grid_outcome" where
  "loadThumbnails gridEl result onSelect initialSelectedPath =
     (if \<not> gridEl then NoGrid
      else case result of
        None \<Rightarrow> GridMessage ''Tauri API not available''
      | Some ListRejected \<Rightarrow> GridMessage ''Error loading folder''
      | Some (ListResult ok entries err) \<Rightarrow>
          (case (if ok then entries else None) of
             None \<Rightarrow>
               GridMessage (or_else (case err of Some m \<Rightarrow> m | None \<Rightarrow> []) ''Could not read folder'')
           | Some es \<Rightarrow>
               (let files = media_files es in
                if files = [] then GridMessage ''No images or videos in this folder''
                else
                  (let pathToSelect =
                         (case initialSelectedPath of
                            Some p \<Rightarrow> (if trim p \<noteq> [] then Some (trim p) else None)
                          | None \<Rightarrow> None);
                       found = (case pathToSelect of Some p \<Rightarrow> find_cell p files | None \<Rightarrow> None);
                       sel = (case found of Some i \<Rightarrow> i | None \<Rightarrow> 0);
                       f = files ! sel
                   in GridLoaded files sel
                        (if onSelect \<and> path f \<noteq> [] then [(path f, name f)] else [])))))"

text \<open>\<open>s.lastIndexOf(c)\<close>, \<open>None\<close> standing for \<open>-1\<close>.\<close>

definition lastIndexOf :: "char \<Rightarrow> string \<Rightarrow> nat option" where
  "lastIndexOf c s =
     (if c \<in> set s then Some (length s - 1 - length (takeWhile (\<lambda>x. x \<noteq> c) (rev s)))
      else None)"

text \<open>\<open>dirname\<close> of the main entry script: the folder of a file path.\<close>

definition dirname :: "string \<Rightarrow> string" where
  "dirname p =
     (if p = [] then []
      else
        (let s = map (\<lambda>c. if c = slash then bslash else c) (trim p) in
         case lastIndexOf bslash s of
           None \<Rightarrow> s
         | Some i \<Rightarrow>
             (let out = take i s in
              if length out = 2 \<and> out ! 1 = CHR '':'' then out @ [bslash] else out)))"

text \<open>\<open>getName\<close> of viewer.js: the last segment of a path.\<close>

definition getName :: "string \<Rightarrow> string" where
  "getName p =
     (let s = map (\<lambda>c. if c = bslash then slash else c) p in
      case lastIndexOf slash s of
        Some i \<Rightarrow> drop (i + 1) s
      | None \<Rightarrow> s)"

definition missing_file :: string where
  "missing_file = photos_dir @ [bslash] @ ''missing.jpg''"


section \<open>The viewer's context\<close>

text \<open>
  Modelled from the spec: the backend commands \<open>open_viewer_window\<close>,
  \<open>get_viewer_context\<close>, \<open>viewer_next\<close> and \<open>viewer_prev\<close> are not among the sources.
  The specification gives them as \<open>openSecondaryContext(orderedPaths, startIndex)\<close>, which
  snapshots the sequence, \<open>getViewerContext() -> (orderedPaths, currentIndex)\<close> and
  \<open>advance(direction) -> (path, displayName)\<close>, which wraps around at both ends: after the
  last item Next yields the first, before the first Previous yields the last.
\<close>

record viewer_context =
  orderedPaths :: "string list"
  currentIndex :: nat

datatype direction = Next | Previous

definition openSecondaryContext :: "string list \<Rightarrow> nat \<Rightarrow> viewer_context" where
  "openSecondaryContext ps startIndex = \<lparr>orderedPaths = ps, currentIndex = startIndex\<rparr>"

definition getViewerContext :: "viewer_context \<Rightarrow> string list \<times> nat" where
  "getViewerContext c = (orderedPaths c, currentIndex c)"

definition currentEntry :: "viewer_context \<Rightarrow> (string \<times> string) option" where
  "currentEntry c =
     (if currentIndex c < length (orderedPaths c)
      then Some (orderedPaths c ! currentIndex c, getName (orderedPaths c ! currentIndex c))
      else None)"

definition advance :: "direction \<Rightarrow> viewer_context \<Rightarrow> viewer_context" where
  "advance d c =
     (let n = length (orderedPaths c); i = currentIndex c in
      if n = 0 then c
      else case d of
        Next \<Rightarrow> c\<lparr>currentIndex := (if n \<le> i + 1 then 0 else i + 1)\<rparr>
      | Previous \<Rightarrow> c\<lparr>currentIndex := (if i = 0 then n - 1 else i - 1)\<rparr>)"

subsection \<open>Opening the viewer from the grid (main entry script)\<close>

text \<open>
  A double click on cell \<open>i\<close> calls \<open>onActivate(paths, i)\<close> with the paths of the cells in
  order; the callback opens the viewer when \<open>invoke\<close> is a function and the list is not
  empty.
\<close>

definition onActivate :: "bool \<Rightarrow> string list \<Rightarrow> nat \<Rightarrow> viewer_context option" where
  "onActivate hasInvoke ps startIndex =
     (if hasInvoke \<and> ps \<noteq> [] then Some (openSecondaryContext ps startIndex) else None)"

definition dblclick :: "bool \<Rightarrow> entry list \<Rightarrow> nat \<Rightarrow> viewer_context option" where
  "dblclick hasInvoke entries i = onActivate hasInvoke (grid_paths entries) i"

subsection \<open>The viewer window (viewer.js)\<close>

text \<open>
  A value received where a number is expected: an integer, or something that is not
  a number. The reply of \<open>get_viewer_context\<close>: rejected, empty, or a pair.
\<close>

datatype jsval = Num int | NotNumber

datatype ctx_reply = CtxRejected | CtxNull | Ctx "string list" jsval

datatype view = ShowText string | ShowItem string string

record viewer_state =
  paths :: "string list"
  index :: int
  content :: view

definition viewer0 :: viewer_state where
  "viewer0 = \<lparr>paths = [], index = 0, content = ShowText []\<rparr>"

text \<open>\<open>ShowItem p n\<close> stands for the call \<open>showImage(p, n)\<close>.\<close>

definition updateDisplay :: "string \<Rightarrow> string \<Rightarrow> view" where
  "updateDisplay p nm = (if p = [] then ShowText ''No image'' else ShowItem p nm)"

text \<open>
  The lines that \<open>init\<close> and \<open>syncFromState\<close> share. An index outside the list reads
  \<open>undefined\<close>, on which \<open>getName\<close> raises: the second component is then \<open>False\<close>, and the
  assignments made before remain.
\<close>

definition apply_context :: "string list \<Rightarrow> jsval \<Rightarrow> viewer_state \<Rightarrow> viewer_state \<times> bool" where
  "apply_context ps iv s =
     (let i0 = (case iv of Num i \<Rightarrow> i | NotNumber \<Rightarrow> 0);
          i1 = (if int (length ps) \<le> i0 then int (length ps) - 1 else i0);
          s1 = s\<lparr>paths := ps, index := i1\<rparr>
      in if 0 \<le> i1 \<and> i1 < int (length ps)
         then (s1\<lparr>content := updateDisplay (ps ! nat i1) (getName (ps ! nat i1))\<rparr>, True)
         else (s1, False))"

definition init_context :: "bool \<Rightarrow> ctx_reply \<Rightarrow> viewer_state \<Rightarrow> viewer_state" where
  "init_context hasInvoke r s =
     (if \<not> hasInvoke then s\<lparr>content := ShowText ''Tauri API not available''\<rparr>
      else case r of
        CtxRejected \<Rightarrow> s\<lparr>content := ShowText ''Failed to load context''\<rparr>
      | CtxNull \<Rightarrow> s\<lparr>content := ShowText ''No images''\<rparr>
      | Ctx ps iv \<Rightarrow>
          (if ps = [] then s\<lparr>content := ShowText ''No images''\<rparr>
           else case apply_context ps iv s of
             (s1, True) \<Rightarrow> s1
           | (s1, False) \<Rightarrow> s1\<lparr>content := ShowText ''Failed to load context''\<rparr>))"

definition syncFromState :: "bool \<Rightarrow> ctx_reply \<Rightarrow> viewer_state \<Rightarrow> viewer_state" where
  "syncFromState hasInvoke r s =
     (if \<not> hasInvoke \<or> paths s = [] then s
      else case r of
        CtxRejected \<Rightarrow> s
      | CtxNull \<Rightarrow> s
      | Ctx ps iv \<Rightarrow> (if ps = [] then s else fst (apply_context ps iv s)))"

text \<open>The reply the backend of the specification gives for a context.\<close>

definition reply_of :: "viewer_context \<Rightarrow> ctx_reply" where
  "reply_of c = (case getViewerContext c of (ps, i) \<Rightarrow> Ctx ps (Num (int i)))"

text \<open>
  Modelled from the spec: the commands \<open>viewer_next\<close> and \<open>viewer_prev\<close> of the backend
  advance its context and return the entry it is then at.
\<close>

definition viewer_next :: "viewer_context \<Rightarrow> viewer_context \<times> (string \<times> string) option" where
  "viewer_next c = (advance Next c, currentEntry (advance Next c))"

definition viewer_prev :: "viewer_context \<Rightarrow> viewer_context \<times> (string \<times> string) option" where
  "viewer_prev c = (advance Previous c, currentEntry (advance Previous c))"

text \<open>
  \<open>goNext\<close> and \<open>goPrev\<close> of viewer.js: without \<open>invoke\<close> nothing happens; otherwise the
  command is invoked and its result is displayed when it has a path
  (\<open>if (result && result[0]) updateDisplay(result[0], result[1])\<close>).
\<close>

definition show_result :: "(string \<times> string) option \<Rightarrow> viewer_state \<Rightarrow> viewer_state" where
  "show_result r s =
     (case r of
        Some (p, nm) \<Rightarrow> (if p \<noteq> [] then s\<lparr>content := updateDisplay p nm\<rparr> else s)
      | None \<Rightarrow> s)"

definition goNext :: "bool \<Rightarrow> viewer_context \<times> viewer_state \<Rightarrow> viewer_context \<times> viewer_state" where
  "goNext hasInvoke cs =
     (case cs of (c, s) \<Rightarrow>
        if \<not> hasInvoke then (c, s)
        else (case viewer_next c of (c1, r) \<Rightarrow> (c1, show_result r s)))"

definition goPrev :: "bool \<Rightarrow> viewer_context \<times> viewer_state \<Rightarrow> viewer_context \<times> viewer_state" where
  "goPrev hasInvoke cs =
     (case cs of (c, s) \<Rightarrow>
        if \<not> hasInvoke then (c, s)
        else (case viewer_prev c of (c1, r) \<Rightarrow> (c1, show_result r s)))"

datatype viewer_op = OpNext | OpPrev | OpFocus

fun viewer_step :: "viewer_context \<times> viewer_state \<Rightarrow> viewer_op \<Rightarrow> viewer_context \<times> viewer_state" where
  "viewer_step cs OpNext = goNext True cs"
| "viewer_step cs OpPrev = goPrev True cs"
| "viewer_step (c, s) OpFocus = (c, syncFromState True (reply_of c) s)"

definition run_viewer :: "viewer_context \<times> viewer_state \<Rightarrow> viewer_op list \<Rightarrow> viewer_context \<times> viewer_state" where
  "run_viewer cs ops = foldl viewer_step cs ops"

text \<open>The viewer opened on a context: the state after \<open>init\<close>.\<close>

definition open_viewer :: "viewer_context \<Rightarrow> viewer_context \<times> viewer_state" where
  "open_viewer c = (c, init_context True (reply_of c) viewer0)"


section \<open>Examples and the relation between the viewer and the grid\<close>

text \<open>A listing collaborator that knows the folder of the scenario and no other.\<close>

definition scenario_fs :: "string \<Rightarrow> listing option" where
  "scenario_fs d =
     (if d = photos_dir then Some (ListResult True (Some scenario_listing) None)
      else Some (ListResult False None (Some ''The system cannot find the path specified.'')))"

definition three_paths :: viewer_context where
  "three_paths =
     \<lparr>orderedPaths = [''C:/p/A.PNG'', ''C:/p/b.jpg'', ''C:/p/c.mp4''], currentIndex = 2\<rparr>"

text \<open>
  The backend's context and the viewer both hold the list \<open>gp\<close>, the backend's index is
  inside it and, when no path is empty, the viewer shows the item at that index.
\<close>

definition tracks :: "string list \<Rightarrow> viewer_context \<times> viewer_state \<Rightarrow> bool" where
  "tracks gp cs =
     (orderedPaths (fst cs) = gp \<and> currentIndex (fst cs) < length gp \<and> paths (snd cs) = gp
      \<and> ([] \<in> set gp \<or>
           content (snd cs) =
             ShowItem (gp ! currentIndex (fst cs)) (getName (gp ! currentIndex (fst cs)))))"


section \<open>Properties\<close>

lemma split_js_nonempty: "split_js sep s \<noteq> []"
  by (induction s) auto

lemma getExt_jpg: "getExt ''b.jpg'' = ''jpg''"
  by (simp add: getExt_def pop_or_empty_def toLowerCase_def toLowerChar_def)

lemma getExt_PNG: "getExt ''A.PNG'' = ''png''"
  by (simp add: getExt_def pop_or_empty_def toLowerCase_def toLowerChar_def)

lemma getExt_mp4: "getExt ''c.mp4'' = ''mp4''"
  by (simp add: getExt_def pop_or_empty_def toLowerCase_def toLowerChar_def)

lemma getExt_txt: "getExt ''d.txt'' = ''txt''"
  by (simp add: getExt_def pop_or_empty_def toLowerCase_def toLowerChar_def)

lemmas ext_tables = IMAGE_EXT_def VIDEO_EXT_def HEIC_EXT_def PDF_EXT_def AUDIO_EXT_def

lemma scenario_filter:
  "filter (\<lambda>e. \<not> is_dir e \<and> isMediaFile (name e)) scenario_listing =
     [file_in photos_dir ''b.jpg'', file_in photos_dir ''A.PNG'', file_in photos_dir ''c.mp4'']"
  by (simp add: scenario_listing_def file_in_def isMediaFile_def getExt_jpg getExt_PNG
      getExt_mp4 getExt_txt ext_tables)

lemma scenario_compare:
  "localeCompare_base ''b.jpg'' ''c.mp4'' < 0"
  "localeCompare_base ''A.PNG'' ''c.mp4'' < 0"
  "localeCompare_base ''A.PNG'' ''b.jpg'' < 0"
  "\<not> localeCompare_base ''b.jpg'' ''A.PNG'' \<le> 0"
  by (simp_all add: localeCompare_base_def toLowerCase_def toLowerChar_def)

text \<open>
  C1. For the folder whose listing holds exactly b.jpg, A.PNG, c.mp4 and d.txt, the
  media sequence is A.PNG (Image), b.jpg (Image), c.mp4 (Video), in this order: d.txt
  is not in the sequence, and the comparison without regard to case puts A.PNG in
  front of b.jpg.
\<close>

theorem C1_scenario_sequence:
  "media_files scenario_listing =
     [file_in photos_dir ''A.PNG'', file_in photos_dir ''b.jpg'', file_in photos_dir ''c.mp4'']
   \<and> map (\<lambda>e. (name e, kindOf (name e))) (media_files scenario_listing) =
     [(''A.PNG'', Image), (''b.jpg'', Image), (''c.mp4'', Video)]
   \<and> ''d.txt'' \<notin> set (map name (media_files scenario_listing))
   \<and> localeCompare_base ''A.PNG'' ''b.jpg'' < 0"
proof -
  have seq: "media_files scenario_listing =
     [file_in photos_dir ''A.PNG'', file_in photos_dir ''b.jpg'', file_in photos_dir ''c.mp4'']"
    unfolding media_files_def scenario_filter sort_by_def
    using scenario_compare by (simp add: file_in_def)
  have kinds: "kindOf ''A.PNG'' = Image" "kindOf ''b.jpg'' = Image" "kindOf ''c.mp4'' = Video"
    by (simp_all add: kindOf_def isHeic_def isPdf_def isVideo_def getExt_jpg getExt_PNG
        getExt_mp4 ext_tables)
  show ?thesis
    unfolding seq using kinds scenario_compare(3) by (simp add: file_in_def)
qed

subsection \<open>Kinds and the surroundings used in examples\<close>

lemma kind_cases:
  "kindOf nm = Heic \<longleftrightarrow> isHeic nm"
  "kindOf nm = Pdf \<longleftrightarrow> \<not> isHeic nm \<and> isPdf nm"
  "kindOf nm = Video \<longleftrightarrow> \<not> isHeic nm \<and> \<not> isPdf nm \<and> isVideo nm"
  "kindOf nm = Image \<longleftrightarrow> \<not> isHeic nm \<and> \<not> isPdf nm \<and> \<not> isVideo nm"
  by (auto simp: kindOf_def)

lemma getExt_HEIC: "getExt ''x.HEIC'' = ''heic''"
  by (simp add: getExt_def pop_or_empty_def toLowerCase_def toLowerChar_def)

lemma getExt_pdf: "getExt ''y.pdf'' = ''pdf''"
  by (simp add: getExt_def pop_or_empty_def toLowerCase_def toLowerChar_def)

lemma kind_examples:
  "kindOf ''x.HEIC'' = Heic" "kindOf ''y.pdf'' = Pdf" "kindOf ''c.mp4'' = Video"
  "kindOf ''b.jpg'' = Image"
  by (simp_all add: kindOf_def isHeic_def isPdf_def isVideo_def getExt_HEIC getExt_pdf
      getExt_mp4 getExt_jpg ext_tables)

lemma env_all_fail_simps:
  "pane_present env_all_fail" "convert_avail env_all_fail" "\<not> convert_throws env_all_fail"
  "invoke_avail env_all_fail" "\<not> asset_loads env_all_fail" "\<not> decode_resolves env_all_fail k"
  "\<not> data_loads env_all_fail k" "in_app env_all_fail"
  by (simp_all add: env_all_fail_def in_app_def)

subsection \<open>HEIC and PDF entries\<close>

text \<open>
  C8. For every file of kind Heic or Pdf no load of any kind is attempted, neither the
  direct asset reference nor a request to the backend: the grid cell, the preview pane
  and the viewer each show a fixed text at once, whatever the surroundings and the
  bound on error events.
\<close>

theorem C8_heic_pdf_placeholder_only:
  assumes "kindOf nm = Heic \<or> kindOf nm = Pdf" and "pane_present e"
  shows "grid_cell fuel e nm = Some [Placeholder (if kindOf nm = Heic then ''HEIC'' else ''PDF'')]
    \<and> showPreview e nm =
        [Placeholder (if kindOf nm = Heic then ''HEIC'' else ''PDF cannot be displayed.'')]
    \<and> showImage fuel e nm =
        Some (Inr [Placeholder (if kindOf nm = Heic then ''HEIC'' else ''PDF cannot be displayed.'')])"
  using assms by (auto simp: kind_cases grid_cell_def showPreview_def showImage_def)

theorem C8_witness:
  "kindOf ''x.HEIC'' = Heic \<and> pane_present env_all_fail
   \<and> grid_cell 0 env_all_fail ''x.HEIC'' = Some [Placeholder ''HEIC'']
   \<and> showPreview env_all_fail ''x.HEIC'' = [Placeholder ''HEIC'']
   \<and> showImage 0 env_all_fail ''x.HEIC'' = Some (Inr [Placeholder ''HEIC''])
   \<and> kindOf ''y.pdf'' = Pdf
   \<and> grid_cell 0 env_all_fail ''y.pdf'' = Some [Placeholder ''PDF'']
   \<and> showPreview env_all_fail ''y.pdf'' = [Placeholder ''PDF cannot be displayed.'']
   \<and> showImage 0 env_all_fail ''y.pdf'' = Some (Inr [Placeholder ''PDF cannot be displayed.''])"
  using C8_heic_pdf_placeholder_only [of "''x.HEIC''" env_all_fail 0]
    C8_heic_pdf_placeholder_only [of "''y.pdf''" env_all_fail 0]
  by (simp add: kind_examples env_all_fail_simps)

subsection \<open>Video entries\<close>

text \<open>
  C3, as stated, fails: for the video c.mp4 whose asset reference does not load, the
  preview pane shows its text at once and asks the backend for nothing, and the viewer
  sets the asset reference and does nothing else.
\<close>

theorem C3_counterexample:
  "kindOf ''c.mp4'' = Video
   \<and> \<not> asset_loads env_all_fail
   \<and> showPreview env_all_fail ''c.mp4'' =
       [AssetRef, Placeholder ''Video failed to load. Check path or format.'']
   \<and> \<not> requests_decode (showPreview env_all_fail ''c.mp4'')
   \<and> showImage 1 env_all_fail ''c.mp4'' = Some (Inr [AssetRef])"
  using kind_examples(3)
  by (simp add: kind_cases showPreview_def showImage_def preview_video_def viewer_video_def
      requests_decode_def env_all_fail_simps)

text \<open>
  C3, amended. For every file of kind Video neither the preview pane nor the viewer
  ever requests a data representation from the backend. In the application the preview
  pane sets the direct asset reference and, when it does not load, shows a text at once;
  the viewer sets the direct asset reference and has no fallback.
\<close>

theorem C3_video_asset_only:
  assumes "kindOf nm = Video"
  shows "\<not> requests_decode (showPreview e nm)
    \<and> (\<forall>t. showImage fuel e nm = Some (Inr t) \<longrightarrow> \<not> requests_decode t)
    \<and> (in_app e \<longrightarrow>
         showPreview e nm =
           AssetRef # (if asset_loads e then []
                       else [Placeholder ''Video failed to load. Check path or format.''])
         \<and> showImage fuel e nm = Some (Inr [AssetRef]))"
  using assms
  by (auto simp: kind_cases showPreview_def showImage_def preview_video_def viewer_video_def
      requests_decode_def in_app_def)

theorem C3_witness:
  "kindOf ''c.mp4'' = Video \<and> in_app env_all_fail
   \<and> showPreview env_all_fail ''c.mp4'' =
       [AssetRef, Placeholder ''Video failed to load. Check path or format.'']
   \<and> showImage 3 env_all_fail ''c.mp4'' = Some (Inr [AssetRef])
   \<and> \<not> requests_decode (showPreview env_all_fail ''c.mp4'')"
  using C3_video_asset_only [of "''c.mp4''" env_all_fail 3]
  by (simp add: kind_examples env_all_fail_simps requests_decode_def)

subsection \<open>Image entries\<close>



text \<open>
  While every request resolves and no data URL loads, the handlers of the viewer and
  of the grid never come to an end: whatever the bound, it is reached.
\<close>

lemma onerror_retries_without_end:
  assumes "invoke_avail e" and "\<And>j. decode_resolves e j \<and> \<not> data_loads e j"
  shows "viewer_onerror n e nm k = None" and "grid_onerror n e k = None"
  using assms by (induction n arbitrary: k) simp_all




subsection \<open>Audio tracks\<close>

lemma audio_cases:
  "startAudioPlayback ae p = [HelpMessage ''Audio not available.'' True]
   \<or> startAudioPlayback ae p = [HelpMessage ''Tauri not available.'' True]
   \<or> (\<exists>rest. startAudioPlayback ae p =
          HelpMessage loading_text False # DecodeRequest ''read_file_as_audio_url'' # rest
        \<and> AssetRef \<notin> set rest)"
  by (auto simp: startAudioPlayback_def split: audio_reply.splits option.splits)

text \<open>
  C7. For every track, playback never sets the direct asset reference. Whenever the
  audio element and the host's \<open>invoke\<close> exist and the path is not empty, the first thing
  done after the loading message is the request for the decoded data URL; and whenever
  \<open>play\<close> is called, that request has been made before it.
\<close>

theorem C7_audio_always_decoded:
  "AssetRef \<notin> set (startAudioPlayback ae p)
   \<and> (audioEl_present ae \<and> invoke_is_function ae \<and> p \<noteq> [] \<longrightarrow>
        (\<exists>rest. startAudioPlayback ae p =
           HelpMessage loading_text False # DecodeRequest ''read_file_as_audio_url'' # rest))
   \<and> (Play \<in> set (startAudioPlayback ae p) \<longrightarrow>
        (\<exists>pre post. startAudioPlayback ae p = pre @ Play # post
           \<and> DecodeRequest ''read_file_as_audio_url'' \<in> set pre \<and> Play \<notin> set pre))"
proof -
  have a: "AssetRef \<notin> set (startAudioPlayback ae p)"
    using audio_cases [of ae p] by auto
  have b: "audioEl_present ae \<and> invoke_is_function ae \<and> p \<noteq> [] \<longrightarrow>
        (\<exists>rest. startAudioPlayback ae p =
           HelpMessage loading_text False # DecodeRequest ''read_file_as_audio_url'' # rest)"
    by (simp add: startAudioPlayback_def)
  have c: "Play \<in> set (startAudioPlayback ae p) \<longrightarrow>
        (\<exists>pre post. startAudioPlayback ae p = pre @ Play # post
           \<and> DecodeRequest ''read_file_as_audio_url'' \<in> set pre \<and> Play \<notin> set pre)"
  proof
    assume pl: "Play \<in> set (startAudioPlayback ae p)"
    then obtain pre post where sp: "startAudioPlayback ae p = pre @ Play # post" "Play \<notin> set pre"
      by (meson split_list_first)
    from pl audio_cases [of ae p] obtain rest where
      r: "startAudioPlayback ae p =
          HelpMessage loading_text False # DecodeRequest ''read_file_as_audio_url'' # rest"
      by auto
    from sp r have "DecodeRequest ''read_file_as_audio_url'' \<in> set pre"
      by (cases pre; cases "tl pre") auto
    with sp show "\<exists>pre post. startAudioPlayback ae p = pre @ Play # post
           \<and> DecodeRequest ''read_file_as_audio_url'' \<in> set pre \<and> Play \<notin> set pre"
      by blast
  qed
  from a b c show ?thesis by blast
qed

theorem C7_witness:
  "audioEl_present audio_env_ok \<and> invoke_is_function audio_env_ok
   \<and> startAudioPlayback audio_env_ok ''C:/Music/a.mp3'' =
       [HelpMessage loading_text False, DecodeRequest ''read_file_as_audio_url'',
        HelpMessage [] False, DataSrc, SetVolume, Play, UpdatePlayButton]
   \<and> AssetRef \<notin> set (startAudioPlayback audio_env_ok ''C:/Music/a.mp3'')"
  using C7_audio_always_decoded [of audio_env_ok "''C:/Music/a.mp3''"]
  by (simp add: startAudioPlayback_def audio_env_ok_def)

subsection \<open>The media sequence and the format tables\<close>









subsection \<open>Navigation in the viewer's context\<close>

lemma advance_Next_index:
  assumes "orderedPaths c \<noteq> []" "currentIndex c < length (orderedPaths c)"
  shows "advance Next c = c\<lparr>currentIndex := (currentIndex c + 1) mod length (orderedPaths c)\<rparr>"
proof (cases "length (orderedPaths c) \<le> currentIndex c + 1")
  case True
  with assms have "currentIndex c + 1 = length (orderedPaths c)" by simp
  with assms True show ?thesis by (simp add: advance_def Let_def)
next
  case False
  with assms show ?thesis by (simp add: advance_def Let_def)
qed

lemma advance_Next_funpow:
  assumes "orderedPaths c \<noteq> []" "currentIndex c < length (orderedPaths c)"
  shows "(advance Next ^^ k) c = c\<lparr>currentIndex := (currentIndex c + k) mod length (orderedPaths c)\<rparr>"
proof (induction k)
  case 0
  with assms show ?case by simp
next
  case (Suc k)
  let ?n = "length (orderedPaths c)"
  let ?d = "c\<lparr>currentIndex := (currentIndex c + k) mod ?n\<rparr>"
  have d: "orderedPaths ?d \<noteq> []" "currentIndex ?d < length (orderedPaths ?d)"
    using assms by simp_all
  have "(advance Next ^^ Suc k) c = advance Next ?d" by (simp add: Suc)
  also have "\<dots> = ?d\<lparr>currentIndex := (currentIndex ?d + 1) mod length (orderedPaths ?d)\<rparr>"
    by (rule advance_Next_index [OF d])
  also have "\<dots> = c\<lparr>currentIndex := (currentIndex c + Suc k) mod ?n\<rparr>"
    by (simp add: mod_simps)
  finally show ?case .
qed

text \<open>
  C6. For every non-empty sequence and every index inside it, Next applied as many
  times as the sequence is long gives back the context it started from, hence the same
  index. Next at the last item yields the first item, and Previous at the first item
  yields the last.
\<close>

theorem C6_wrap_around:
  assumes "orderedPaths c \<noteq> []" and "currentIndex c < length (orderedPaths c)"
  shows "(advance Next ^^ length (orderedPaths c)) c = c
    \<and> currentIndex ((advance Next ^^ length (orderedPaths c)) c) = currentIndex c
    \<and> (currentIndex c = length (orderedPaths c) - 1 \<longrightarrow>
         currentIndex (advance Next c) = 0
       \<and> currentEntry (advance Next c) = Some (hd (orderedPaths c), getName (hd (orderedPaths c))))
    \<and> (currentIndex c = 0 \<longrightarrow>
         currentIndex (advance Previous c) = length (orderedPaths c) - 1
       \<and> currentEntry (advance Previous c) =
           Some (last (orderedPaths c), getName (last (orderedPaths c))))"
proof -
  have loop: "(advance Next ^^ length (orderedPaths c)) c = c"
    using assms by (simp add: advance_Next_funpow [OF assms])
  have nxt: "currentIndex c = length (orderedPaths c) - 1 \<longrightarrow>
         currentIndex (advance Next c) = 0
       \<and> currentEntry (advance Next c) = Some (hd (orderedPaths c), getName (hd (orderedPaths c)))"
    using assms by (auto simp: advance_def Let_def currentEntry_def hd_conv_nth)
  have prv: "currentIndex c = 0 \<longrightarrow>
         currentIndex (advance Previous c) = length (orderedPaths c) - 1
       \<and> currentEntry (advance Previous c) =
           Some (last (orderedPaths c), getName (last (orderedPaths c)))"
    using assms by (auto simp: advance_def Let_def currentEntry_def last_conv_nth)
  from loop nxt prv show ?thesis by simp
qed
theorem C6_witness:
  "orderedPaths three_paths \<noteq> [] \<and> currentIndex three_paths < length (orderedPaths three_paths)
   \<and> (advance Next ^^ 3) three_paths = three_paths
   \<and> currentIndex (advance Next three_paths) = 0
   \<and> currentEntry (advance Next three_paths) = Some (''C:/p/A.PNG'', getName ''C:/p/A.PNG'')
   \<and> currentIndex (advance Previous (advance Next three_paths)) = 2"
  using C6_wrap_around [of three_paths] C6_wrap_around [of "advance Next three_paths"]
  by (simp add: three_paths_def advance_def numeral_3_eq_3)

subsection \<open>The index of the viewer\<close>





subsection \<open>Restoring the selected file\<close>

text \<open>
  C4. Let the folder of the persisted file be listed without error and hold at least
  one media file, and let the persisted path be the path of none of them. Then
  \<open>loadThumbnails\<close>, called for that folder with the persisted path as the path to
  select, ends with the grid loaded: the cells are the folder's media sequence, the
  first cell is the selected one, and \<open>onSelect\<close> has been called once, for it.
\<close>

theorem C4_missing_file_selects_first:
  assumes "fs (dirname f) = Some (ListResult True (Some es) err)"
    and "media_files es \<noteq> []"
    and "trim f \<notin> set (grid_paths es)"
    and "path (hd (media_files es)) \<noteq> []"
  shows "loadThumbnails True (fs (dirname f)) True (Some f) =
           GridLoaded (media_files es) 0
             [(path (hd (media_files es)), name (hd (media_files es)))]"
proof -
  have nf: "find_cell (trim f) (media_files es) = None"
    using assms(3) by (simp add: find_cell_def grid_paths_def)
  have h: "media_files es ! 0 = hd (media_files es)"
    using assms(2) by (simp add: hd_conv_nth)
  show ?thesis
    using assms(2,4) by (simp add: assms(1) loadThumbnails_def Let_def nf h)
qed

lemma dirname_missing: "dirname missing_file = photos_dir"
  by (simp add: dirname_def missing_file_def photos_dir_def trim_def is_space_def bslash_def
      slash_def lastIndexOf_def)

lemma trim_missing: "trim missing_file = missing_file"
  by (simp add: missing_file_def photos_dir_def trim_def is_space_def bslash_def)

lemma scenario_media:
  "media_files scenario_listing =
     [file_in photos_dir ''A.PNG'', file_in photos_dir ''b.jpg'', file_in photos_dir ''c.mp4'']"
  unfolding media_files_def scenario_filter sort_by_def
  using scenario_compare by (simp add: file_in_def)

lemma missing_not_listed: "missing_file \<notin> set (grid_paths scenario_listing)"
  by (simp add: grid_paths_def scenario_media file_in_def missing_file_def)

theorem C4_witness:
  "dirname missing_file = photos_dir
   \<and> missing_file \<notin> set (grid_paths scenario_listing)
   \<and> loadThumbnails True (scenario_fs (dirname missing_file)) True (Some missing_file) =
       GridLoaded
         [file_in photos_dir ''A.PNG'', file_in photos_dir ''b.jpg'', file_in photos_dir ''c.mp4'']
         0 [(photos_dir @ [bslash] @ ''A.PNG'', ''A.PNG'')]"
  using C4_missing_file_selects_first [of scenario_fs missing_file scenario_listing None]
  by (simp add: dirname_missing trim_missing scenario_fs_def scenario_media missing_not_listed
      file_in_def)

subsection \<open>The order of the grid in the viewer\<close>

lemma advance_paths: "orderedPaths (advance d c) = orderedPaths c"
  by (auto simp: advance_def Let_def split: direction.splits)

lemma advance_in_range:
  "orderedPaths c = gp \<Longrightarrow> currentIndex c < length gp \<Longrightarrow> currentIndex (advance d c) < length gp"
  by (auto simp: advance_def Let_def split: direction.splits)
lemma tracks_advance:
  assumes "tracks gp (c, s)"
  shows "tracks gp (advance d c, show_result (currentEntry (advance d c)) s)"
proof -
  from assms have a: "orderedPaths c = gp" "currentIndex c < length gp" "paths s = gp"
    by (simp_all add: tracks_def)
  have k: "orderedPaths (advance d c) = gp" "currentIndex (advance d c) < length gp"
    using a by (simp_all add: advance_paths advance_in_range)
  have nth: "[] \<notin> set gp \<Longrightarrow> gp ! currentIndex (advance d c) \<noteq> []"
    using k(2) nth_mem by metis
  show ?thesis
    using a k nth
    by (auto simp: tracks_def show_result_def currentEntry_def updateDisplay_def)
qed

lemma tracks_go:
  assumes "tracks gp cs"
  shows "tracks gp (goNext True cs)" and "tracks gp (goPrev True cs)"
proof -
  obtain c s where cs: "cs = (c, s)" by (cases cs)
  from assms show "tracks gp (goNext True cs)"
    by (simp add: cs goNext_def viewer_next_def tracks_advance)
  from assms show "tracks gp (goPrev True cs)"
    by (simp add: cs goPrev_def viewer_prev_def tracks_advance)
qed

lemma tracks_sync:
  assumes "tracks gp (c, s)"
  shows "tracks gp (c, syncFromState True (reply_of c) s)"
proof -
  from assms have a: "orderedPaths c = gp" "currentIndex c < length gp" "paths s = gp"
    "[] \<in> set gp \<or> content s = ShowItem (gp ! currentIndex c) (getName (gp ! currentIndex c))"
    by (simp_all add: tracks_def)
  from a(2) have ne: "gp \<noteq> []" by auto
  have nth: "[] \<notin> set gp \<Longrightarrow> gp ! currentIndex c \<noteq> []"
    using a(2) nth_mem by metis
  show ?thesis
    using a ne nth
    by (auto simp: tracks_def syncFromState_def reply_of_def getViewerContext_def
        apply_context_def Let_def updateDisplay_def)
qed

lemma tracks_step: "tracks gp cs \<Longrightarrow> tracks gp (viewer_step cs op)"
  by (cases cs; cases op) (simp_all add: tracks_go tracks_sync)

lemma tracks_run: "tracks gp cs \<Longrightarrow> tracks gp (run_viewer cs ops)"
  unfolding run_viewer_def by (induction ops arbitrary: cs) (simp_all add: tracks_step)

lemma tracks_open:
  assumes "i < length gp"
  shows "tracks gp (open_viewer (openSecondaryContext gp i))"
proof -
  from assms have ne: "gp \<noteq> []" by auto
  have nth: "[] \<notin> set gp \<Longrightarrow> gp ! i \<noteq> []"
    using assms nth_mem by metis
  show ?thesis
    using assms ne nth
    by (auto simp: tracks_def open_viewer_def openSecondaryContext_def init_context_def
        reply_of_def getViewerContext_def apply_context_def Let_def updateDisplay_def viewer0_def)
qed

text \<open>
  C5. A double click on a cell of the grid opens the viewer on a context whose
  sequence is the grid's list of paths, item for item and in the same order. The
  viewer holds this list after it has fetched the context, and after any sequence of
  Next, Previous and resyncs the backend and the viewer still hold it, the backend's
  index is inside it and, no path being empty, the item displayed is the one the list
  has at that index.
\<close>

theorem C5_viewer_follows_grid_order:
  assumes "i < length (grid_paths es)"
  shows "\<exists>c. dblclick True es i = Some c
    \<and> orderedPaths c = grid_paths es
    \<and> paths (snd (open_viewer c)) = grid_paths es
    \<and> orderedPaths (fst (run_viewer (open_viewer c) ops)) = grid_paths es
    \<and> paths (snd (run_viewer (open_viewer c) ops)) = grid_paths es
    \<and> currentIndex (fst (run_viewer (open_viewer c) ops)) < length (grid_paths es)
    \<and> ([] \<notin> set (grid_paths es) \<longrightarrow>
         content (snd (run_viewer (open_viewer c) ops)) =
           ShowItem (grid_paths es ! currentIndex (fst (run_viewer (open_viewer c) ops)))
             (getName (grid_paths es ! currentIndex (fst (run_viewer (open_viewer c) ops)))))"
proof -
  from assms have ne: "grid_paths es \<noteq> []" by auto
  have d: "dblclick True es i = Some (openSecondaryContext (grid_paths es) i)"
    using ne by (simp add: dblclick_def onActivate_def)
  have t: "tracks (grid_paths es) (open_viewer (openSecondaryContext (grid_paths es) i))"
    by (rule tracks_open [OF assms])
  from t have p: "paths (snd (open_viewer (openSecondaryContext (grid_paths es) i))) = grid_paths es"
    by (simp add: tracks_def)
  have o: "orderedPaths (openSecondaryContext (grid_paths es) i) = grid_paths es"
    by (simp add: openSecondaryContext_def)
  from tracks_run [OF t, of ops] have r:
    "tracks (grid_paths es) (run_viewer (open_viewer (openSecondaryContext (grid_paths es) i)) ops)" .
  from d o p r show ?thesis
    unfolding tracks_def by blast
qed

lemma scenario_grid_paths:
  "grid_paths scenario_listing =
     [photos_dir @ [bslash] @ ''A.PNG'', photos_dir @ [bslash] @ ''b.jpg'',
      photos_dir @ [bslash] @ ''c.mp4'']"
  by (simp add: grid_paths_def scenario_media file_in_def)

theorem C5_witness:
  "(1::nat) < length (grid_paths scenario_listing)
   \<and> dblclick True scenario_listing 1 =
       Some \<lparr>orderedPaths = grid_paths scenario_listing, currentIndex = 1\<rparr>
   \<and> orderedPaths (fst (run_viewer
         (open_viewer \<lparr>orderedPaths = grid_paths scenario_listing, currentIndex = 1\<rparr>)
         [OpNext, OpNext, OpFocus, OpPrev])) = grid_paths scenario_listing
   \<and> paths (snd (run_viewer
         (open_viewer \<lparr>orderedPaths = grid_paths scenario_listing, currentIndex = 1\<rparr>)
         [OpNext, OpNext, OpFocus, OpPrev])) = grid_paths scenario_listing"
proof -
  have l: "(1::nat) < length (grid_paths scenario_listing)"
    by (simp add: scenario_grid_paths)
  have d: "dblclick True scenario_listing 1 =
       Some \<lparr>orderedPaths = grid_paths scenario_listing, currentIndex = 1\<rparr>"
    by (simp add: dblclick_def onActivate_def openSecondaryContext_def scenario_grid_paths)
  from C5_viewer_follows_grid_order [OF l, of "[OpNext, OpNext, OpFocus, OpPrev]"] l d
  show ?thesis by auto
qed

end
